theory Spec2Isabelle
  imports Main "HOL-Library.Word"
begin

section \<open>Data model of Provider.go\<close>

text \<open>
  A Go function returning \<^verbatim>\<open>(*T, error)\<close> is modelled as returning a pair of options:
  the pointer (\<open>None\<close> is \<^verbatim>\<open>nil\<close>) and the error (\<open>None\<close> is \<^verbatim>\<open>nil\<close>).
  Nothing in the type ties the two components together; what the code guarantees about
  them is proved below.
\<close>

datatype ctx_err = Canceled | DeadlineExceeded

datatype error =
    NotFound                  \<comment> \<open>\<^verbatim>\<open>ethereum.NotFound\<close>\<close>
  | CallFailed string         \<comment> \<open>an error made by the RPC transport, the server or the decoder\<close>
  | ContextErr ctx_err        \<comment> \<open>\<^verbatim>\<open>ctx.Err()\<close>: \<^verbatim>\<open>context.Canceled\<close> or \<^verbatim>\<open>context.DeadlineExceeded\<close>\<close>
  | Errorf string error       \<comment> \<open>\<^verbatim>\<open>fmt.Errorf("<text>: %w", err)\<close>\<close>
  | ErrorsNew string          \<comment> \<open>\<^verbatim>\<open>errors.New("<text>")\<close>\<close>

type_synonym 'a go_result = "'a option \<times> error option"

text \<open>A dereference of a nil pointer panics; a function either returns or panics.\<close>

datatype 'a outcome = Return 'a | Panic

type_synonym Hash = "256 word"

text \<open>
  \<^verbatim>\<open>TransactionReceipt\<close> is declared in another file of the package. The only field this
  file reads is \<^verbatim>\<open>BlockNumber *big.Int\<close>; the remaining fields are the parameter \<open>'a\<close>.
\<close>

record 'a TransactionReceipt =
  BlockNumber :: "int option"
  OtherFields :: 'a

text \<open>\<^verbatim>\<open>types.Header\<close> of go-ethereum; only \<^verbatim>\<open>Number *big.Int\<close> is read.\<close>

record Header =
  Number :: "int option"

text \<open>The local struct \<^verbatim>\<open>TmpBlock\<close> of \<^verbatim>\<open>GetBlockByNumber\<close>.\<close>

record TmpBlock =
  TmpNumber :: int
  TmpL1BatchNumber :: "int option"
  TmpL1BatchTimestamp :: "int option"

text \<open>The local struct \<^verbatim>\<open>TmpBlock\<close> of \<^verbatim>\<open>GetBlockByHash\<close> (it has no number).\<close>

record TmpBlockH =
  TmpHL1BatchNumber :: "int option"
  TmpHL1BatchTimestamp :: "int option"

text \<open>\<^verbatim>\<open>Block\<close>: go-ethereum's block (the parameter \<open>'b\<close>) extended by two fields.\<close>

record 'b Block =
  Block :: 'b
  L1BatchNumber :: "int option"
  L1BatchTimestamp :: "int option"

section \<open>Query wrappers with a nullable response\<close>

text \<open>
  Each wrapper declares \<^verbatim>\<open>var resp *T\<close>, runs \<^verbatim>\<open>err := p.c.Call(&resp, method, args...)\<close>
  and inspects \<^verbatim>\<open>err\<close> and \<^verbatim>\<open>resp\<close>. The wrapper is modelled as a function of what the call
  left behind: the pair of \<^verbatim>\<open>resp\<close> after the call and the returned \<^verbatim>\<open>err\<close>.
\<close>

definition GetTransactionReceipt ::
  "'a TransactionReceipt go_result \<Rightarrow> 'a TransactionReceipt go_result" where
  "GetTransactionReceipt call =
     (case call of (resp, err) \<Rightarrow>
        (case err of
           Some e \<Rightarrow> (None, Some (Errorf ''failed to query eth_getTransactionReceipt'' e))
         | None \<Rightarrow>
             (case resp of
                None \<Rightarrow> (None, Some NotFound)
              | Some r \<Rightarrow> (resp, None))))"

definition GetTransaction :: "'t go_result \<Rightarrow> 't go_result" where
  "GetTransaction call =
     (case call of (resp, err) \<Rightarrow>
        (case err of
           Some e \<Rightarrow> (None, Some (Errorf ''failed to query eth_getTransactionByHash'' e))
         | None \<Rightarrow>
             (case resp of
                None \<Rightarrow> (None, Some NotFound)
              | Some r \<Rightarrow> (resp, None))))"

definition ZksGetL2ToL1LogProof :: "'p go_result \<Rightarrow> 'p go_result" where
  "ZksGetL2ToL1LogProof call =
     (case call of (resp, err) \<Rightarrow>
        (case err of
           Some e \<Rightarrow> (None, Some (Errorf ''failed to query zks_getL2ToL1LogProof'' e))
         | None \<Rightarrow>
             (case resp of
                None \<Rightarrow> (None, Some NotFound)
              | Some r \<Rightarrow> (resp, None))))"

definition ZksGetBlockDetails :: "'d go_result \<Rightarrow> 'd go_result" where
  "ZksGetBlockDetails call =
     (case call of (resp, err) \<Rightarrow>
        (case err of
           Some e \<Rightarrow> (None, Some (Errorf ''failed to query zks_getBlockDetails'' e))
         | None \<Rightarrow>
             (case resp of
                None \<Rightarrow> (None, Some NotFound)
              | Some r \<Rightarrow> (resp, None))))"

text \<open>
  \<^verbatim>\<open>GetBlockByNumber\<close> makes a second request through the embedded go-ethereum client,
  \<^verbatim>\<open>p.Client.BlockByNumber(ctx, resp.Number.ToInt())\<close>, given here as the function
  \<open>BlockByNumber\<close>. The block it returns is dereferenced (\<^verbatim>\<open>*ethBlock\<close>) once its error
  has been found nil, which panics on a nil block.
\<close>

definition GetBlockByNumber ::
  "TmpBlock go_result \<Rightarrow> (int \<Rightarrow> 'b go_result) \<Rightarrow> 'b Block go_result outcome" where
  "GetBlockByNumber call BlockByNumber =
     (case call of (resp, err) \<Rightarrow>
        (case err of
           Some e \<Rightarrow> Return (None, Some (Errorf ''failed to query eth_getBlockByNumber'' e))
         | None \<Rightarrow>
             (case resp of
                None \<Rightarrow> Return (None, Some NotFound)
              | Some r \<Rightarrow>
                  (case BlockByNumber (TmpNumber r) of (ethBlock, err2) \<Rightarrow>
                     (case err2 of
                        Some e2 \<Rightarrow> Return (None, Some e2)
                      | None \<Rightarrow>
                          (case ethBlock of
                             None \<Rightarrow> Panic
                           | Some b \<Rightarrow>
                               Return (Some \<lparr>Block = b,
                                             L1BatchNumber = TmpL1BatchNumber r,
                                             L1BatchTimestamp = TmpL1BatchTimestamp r\<rparr>,
                                       None)))))))"

definition GetBlockByHash ::
  "TmpBlockH go_result \<Rightarrow> (Hash \<Rightarrow> 'b go_result) \<Rightarrow> Hash \<Rightarrow> 'b Block go_result outcome" where
  "GetBlockByHash call BlockByHash blockHash =
     (case call of (resp, err) \<Rightarrow>
        (case err of
           Some e \<Rightarrow> Return (None, Some (Errorf ''failed to query eth_getBlockByHash'' e))
         | None \<Rightarrow>
             (case resp of
                None \<Rightarrow> Return (None, Some NotFound)
              | Some r \<Rightarrow>
                  (case BlockByHash blockHash of (ethBlock, err2) \<Rightarrow>
                     (case err2 of
                        Some e2 \<Rightarrow> Return (None, Some e2)
                      | None \<Rightarrow>
                          (case ethBlock of
                             None \<Rightarrow> Panic
                           | Some b \<Rightarrow>
                               Return (Some \<lparr>Block = b,
                                             L1BatchNumber = TmpHL1BatchNumber r,
                                             L1BatchTimestamp = TmpHL1BatchTimestamp r\<rparr>,
                                       None)))))))"

section \<open>The environment of the two wait operations\<close>

text \<open>
  The wait operations talk to the node and block on channels. What the outside does is
  given in advance as three scripts, indexed by how many interactions of that kind have
  happened already:
  \<^item> \<open>eth_getTransactionReceipt k txHash\<close>: what the \<open>k\<close>-th call
    \<^verbatim>\<open>p.c.Call(&resp, "eth_getTransactionReceipt", txHash)\<close> leaves in \<^verbatim>\<open>resp\<close> and returns;
  \<^item> \<open>eth_getBlockByNumber_finalized k\<close>: the same for the \<open>k\<close>-th call
    \<^verbatim>\<open>p.c.CallContext(ctx, &blockHead, "eth_getBlockByNumber", BlockNumberFinalized, false)\<close>;
  \<^item> \<open>select k\<close>: which case the \<open>k\<close>-th \<^verbatim>\<open>select\<close> statement takes,
    \<^verbatim>\<open>case <-ctx.Done()\<close> (with the value \<^verbatim>\<open>ctx.Err()\<close> has then) or \<^verbatim>\<open>case <-queryTicker.C\<close>.
  A context that is done stays done, and Go picks at random among the ready cases of a
  \<^verbatim>\<open>select\<close>; the script resolves that choice.
\<close>

datatype select_case = CtxDone ctx_err | Tick

record 'a env =
  eth_getTransactionReceipt :: "nat \<Rightarrow> Hash \<Rightarrow> 'a TransactionReceipt go_result"
  eth_getBlockByNumber_finalized :: "nat \<Rightarrow> Header go_result"
  select :: "nat \<Rightarrow> select_case"

text \<open>The position in the three scripts: how many interactions of each kind are over.\<close>

record world =
  receiptCalls :: nat
  headerCalls :: nat
  selects :: nat

section \<open>WaitMined\<close>

text \<open>
  The loop condition \<^verbatim>\<open>err == nil && receipt.BlockNumber != nil\<close>: the right operand is
  evaluated only when the left one holds, and dereferences \<^verbatim>\<open>receipt\<close>.
\<close>

definition is_mined :: "'a TransactionReceipt go_result \<Rightarrow> bool outcome" where
  "is_mined fetched =
     (case fetched of (receipt, err) \<Rightarrow>
        (case err of
           Some e \<Rightarrow> Return False
         | None \<Rightarrow>
             (case receipt of
                None \<Rightarrow> Panic
              | Some r \<Rightarrow> Return (BlockNumber r \<noteq> None))))"

text \<open>
  \<^verbatim>\<open>for { ... }\<close> has no exit but its two \<^verbatim>\<open>return\<close> statements, so the function is partial:
  \<open>None\<close> means that the call never returns.
\<close>

partial_function (option) WaitMined ::
  "'a env \<Rightarrow> Hash \<Rightarrow> world \<Rightarrow> ('a TransactionReceipt go_result outcome \<times> world) option" where
  "WaitMined p txHash w =
     (let fetched = GetTransactionReceipt (eth_getTransactionReceipt p (receiptCalls w) txHash);
          w1 = w\<lparr>receiptCalls := Suc (receiptCalls w)\<rparr>
      in case is_mined fetched of
           Panic \<Rightarrow> Some (Panic, w1)
         | Return mined \<Rightarrow>
             if mined then Some (Return (fst fetched, None), w1)
             else
               (let w2 = w1\<lparr>selects := Suc (selects w1)\<rparr>
                in case select p (selects w1) of
                     CtxDone reason \<Rightarrow> Some (Return (None, Some (ContextErr reason)), w2)
                   | Tick \<Rightarrow> WaitMined p txHash w2))"

section \<open>WaitFinalized\<close>

text \<open>
  \<^verbatim>\<open>x.Cmp(y)\<close> of \<^verbatim>\<open>math/big\<close> on two pointers: it answers 0 for identical pointers
  (two nil pointers are identical) before it reads either, and panics when it reads a
  nil one.
\<close>

definition Cmp :: "int option \<Rightarrow> int option \<Rightarrow> int outcome" where
  "Cmp x y =
     (case (x, y) of
        (None, None) \<Rightarrow> Return 0
      | (Some a, Some b) \<Rightarrow> Return (if a < b then - 1 else if a = b then 0 else 1)
      | _ \<Rightarrow> Panic)"

text \<open>The second loop of \<^verbatim>\<open>WaitFinalized\<close> (lines 367 to 384), for the receipt in hand.\<close>

partial_function (option) WaitFinalized_loop ::
  "'a env \<Rightarrow> 'a TransactionReceipt \<Rightarrow> world \<Rightarrow>
   ('a TransactionReceipt go_result outcome \<times> world) option" where
  "WaitFinalized_loop p receipt w =
     (let (blockHead, err0) = eth_getBlockByNumber_finalized p (headerCalls w);
          w1 = w\<lparr>headerCalls := Suc (headerCalls w)\<rparr>;
          err = (if err0 = None \<and> blockHead = None then Some NotFound else err0)
      in case err of
           Some e \<Rightarrow> Some (Return (None, Some (Errorf ''failed to get finalized block'' e)), w1)
         | None \<Rightarrow>
             (case blockHead of
                None \<Rightarrow> Some (Panic, w1)
              | Some h \<Rightarrow>
                  (case Cmp (Number h) (BlockNumber receipt) of
                     Panic \<Rightarrow> Some (Panic, w1)
                   | Return c \<Rightarrow>
                       if c \<ge> 0 then Some (Return (Some receipt, None), w1)
                       else
                         (let w2 = w1\<lparr>selects := Suc (selects w1)\<rparr>
                          in case select p (selects w1) of
                               CtxDone reason \<Rightarrow>
                                 Some (Return (None, Some (ContextErr reason)), w2)
                             | Tick \<Rightarrow> WaitFinalized_loop p receipt w2))))"

text \<open>
  What \<^verbatim>\<open>WaitFinalized\<close> does with the outcome of its call of \<^verbatim>\<open>WaitMined\<close>
  (lines 358 to 385).
\<close>

definition WaitFinalized_after ::
  "'a env \<Rightarrow> 'a TransactionReceipt go_result outcome \<times> world \<Rightarrow>
   ('a TransactionReceipt go_result outcome \<times> world) option" where
  "WaitFinalized_after p mined =
     (case mined of
        (Panic, w) \<Rightarrow> Some (Panic, w)
      | (Return (receipt, err), w) \<Rightarrow>
          (case err of
             Some e \<Rightarrow> Some (Return (None, Some (Errorf ''failed to wait for tx is mined'' e)), w)
           | None \<Rightarrow>
               (case receipt of
                  None \<Rightarrow> Some (Panic, w)
                | Some r \<Rightarrow>
                    if BlockNumber r = None
                    then Some (Return (None, Some (ErrorsNew ''empty tx block number'')), w)
                    else WaitFinalized_loop p r w)))"

definition WaitFinalized ::
  "'a env \<Rightarrow> Hash \<Rightarrow> world \<Rightarrow> ('a TransactionReceipt go_result outcome \<times> world) option" where
  "WaitFinalized p txHash w = Option.bind (WaitMined p txHash w) (WaitFinalized_after p)"

section \<open>Notions used in the statements\<close>

text \<open>The Go-level contract of a \<^verbatim>\<open>(*T, error)\<close> return: a non-nil result exactly when no error.\<close>

definition result_xor_error :: "'a go_result \<Rightarrow> bool" where
  "result_xor_error ret = (case ret of (res, err) \<Rightarrow> (res \<noteq> None) = (err = None))"

text \<open>
  The \<open>k\<close>-th receipt fetch makes the loop condition of \<^verbatim>\<open>WaitMined\<close> true: it succeeds
  and its receipt has a block number.
\<close>

definition mined_at :: "'a env \<Rightarrow> Hash \<Rightarrow> nat \<Rightarrow> bool" where
  "mined_at p txHash k =
     (is_mined (GetTransactionReceipt (eth_getTransactionReceipt p k txHash)) = Return True)"

text \<open>
  The first \<open>n\<close> rounds of \<^verbatim>\<open>WaitMined\<close> from \<open>w\<close> on find no mined receipt and their
  \<^verbatim>\<open>select\<close> takes the ticker case.
\<close>

definition waiting :: "'a env \<Rightarrow> Hash \<Rightarrow> world \<Rightarrow> nat \<Rightarrow> bool" where
  "waiting p txHash w n =
     (\<forall>i<n. \<not> mined_at p txHash (receiptCalls w + i) \<and> select p (selects w + i) = Tick)"

text \<open>The number of the header that a finalized-block call delivered without error, if any.\<close>

definition header_number :: "Header go_result \<Rightarrow> int option" where
  "header_number fetched =
     (case fetched of (blockHead, err) \<Rightarrow>
        (case err of
           Some e \<Rightarrow> None
         | None \<Rightarrow> (case blockHead of None \<Rightarrow> None | Some h \<Rightarrow> Number h)))"

text \<open>The \<open>k\<close>-th finalized block is below, respectively at or above, block number \<open>b\<close>.\<close>

definition behind_at :: "'a env \<Rightarrow> int \<Rightarrow> nat \<Rightarrow> bool" where
  "behind_at p b k =
     (case header_number (eth_getBlockByNumber_finalized p k) of
        None \<Rightarrow> False
      | Some m \<Rightarrow> m < b)"

definition reached_at :: "'a env \<Rightarrow> int \<Rightarrow> nat \<Rightarrow> bool" where
  "reached_at p b k =
     (case header_number (eth_getBlockByNumber_finalized p k) of
        None \<Rightarrow> False
      | Some m \<Rightarrow> b \<le> m)"

text \<open>
  The first \<open>n\<close> rounds of the second loop from \<open>w\<close> on see a finalized block below \<open>b\<close>
  and their \<^verbatim>\<open>select\<close> takes the ticker case.
\<close>

definition catching_up :: "'a env \<Rightarrow> int \<Rightarrow> world \<Rightarrow> nat \<Rightarrow> bool" where
  "catching_up p b w n =
     (\<forall>i<n. behind_at p b (headerCalls w + i) \<and> select p (selects w + i) = Tick)"

text \<open>How round \<open>n\<close> of the second loop ends it with the outcome \<open>y\<close>.\<close>

definition loop_exit ::
  "'a env \<Rightarrow> 'a TransactionReceipt \<Rightarrow> int \<Rightarrow> world \<Rightarrow> nat \<Rightarrow>
   'a TransactionReceipt go_result outcome \<times> world \<Rightarrow> bool" where
  "loop_exit p r b w n y =
     (let k = headerCalls w + n;
          w1 = w\<lparr>headerCalls := headerCalls w + Suc n, selects := selects w + n\<rparr>
      in if reached_at p b k then y = (Return (Some r, None), w1)
         else if behind_at p b k
         then \<exists>reason. select p (selects w + n) = CtxDone reason \<and>
                y = (Return (None, Some (ContextErr reason)), w1\<lparr>selects := selects w + Suc n\<rparr>)
         else (case eth_getBlockByNumber_finalized p k of
                 (blockHead, Some e) \<Rightarrow>
                   y = (Return (None, Some (Errorf ''failed to get finalized block'' e)), w1)
               | (None, None) \<Rightarrow>
                   y = (Return (None, Some (Errorf ''failed to get finalized block'' NotFound)), w1)
               | (Some h, None) \<Rightarrow> y = (Panic, w1)))"

section \<open>Scenarios\<close>

definition start :: world where
  "start = \<lparr>receiptCalls = 0, headerCalls = 0, selects = 0\<rparr>"

definition receipt100 :: "unit TransactionReceipt" where
  "receipt100 = \<lparr>BlockNumber = Some 100, OtherFields = ()\<rparr>"

definition pending_receipt :: "unit TransactionReceipt" where
  "pending_receipt = \<lparr>BlockNumber = None, OtherFields = ()\<rparr>"

definition header_at :: "int \<Rightarrow> Header go_result" where
  "header_at n = (Some \<lparr>Number = Some n\<rparr>, None)"

text \<open>
  Receipt poll sequence [NotFound, NotFound, {blockNumber: 100}] (the node answers
  \<^verbatim>\<open>null\<close> twice); finalized headers [98, 99, 101]; no cancellation.
\<close>

definition mined_at_third_poll :: "unit env" where
  "mined_at_third_poll =
     \<lparr>eth_getTransactionReceipt = (\<lambda>k h. if k < 2 then (None, None) else (Some receipt100, None)),
      eth_getBlockByNumber_finalized =
        (\<lambda>k. if k = 0 then header_at 98 else if k = 1 then header_at 99 else header_at 101),
      select = (\<lambda>k. Tick)\<rparr>"

text \<open>
  The first receipt fetch fails, the second finds a receipt that has no block number
  yet, the third finds the receipt with block number 100; no cancellation.
\<close>

definition failed_pending_mined :: "unit env" where
  "failed_pending_mined =
     \<lparr>eth_getTransactionReceipt =
        (\<lambda>k h. if k = 0 then (None, Some (CallFailed ''connection refused''))
               else if k = 1 then (Some pending_receipt, None)
               else (Some receipt100, None)),
      eth_getBlockByNumber_finalized = (\<lambda>k. header_at 101),
      select = (\<lambda>k. Tick)\<rparr>"

text \<open>The receipt never becomes available and nobody cancels.\<close>

definition never_mined :: "unit env" where
  "never_mined =
     \<lparr>eth_getTransactionReceipt = (\<lambda>k h. (None, None)),
      eth_getBlockByNumber_finalized = (\<lambda>k. header_at 0),
      select = (\<lambda>k. Tick)\<rparr>"

text \<open>The receipt never becomes available; the deadline passes during the third wait.\<close>

definition deadline_after_two_ticks :: "unit env" where
  "deadline_after_two_ticks =
     \<lparr>eth_getTransactionReceipt = (\<lambda>k h. (None, None)),
      eth_getBlockByNumber_finalized = (\<lambda>k. header_at 0),
      select = (\<lambda>k. if k < 2 then Tick else CtxDone DeadlineExceeded)\<rparr>"

text \<open>The transport fails on every receipt fetch; the caller cancels during the first wait.\<close>

definition cancelled_while_waiting :: "unit env" where
  "cancelled_while_waiting =
     \<lparr>eth_getTransactionReceipt = (\<lambda>k h. (None, Some (CallFailed ''connection reset''))),
      eth_getBlockByNumber_finalized = (\<lambda>k. header_at 0),
      select = (\<lambda>k. CtxDone Canceled)\<rparr>"

text \<open>
  The context is done before the call, so that every \<^verbatim>\<open>select\<close> that is reached takes
  the \<^verbatim>\<open>ctx.Done()\<close> case; the transaction is mined already.
\<close>

definition done_before_call :: "ctx_err \<Rightarrow> unit env" where
  "done_before_call reason =
     \<lparr>eth_getTransactionReceipt = (\<lambda>k h. (Some receipt100, None)),
      eth_getBlockByNumber_finalized = (\<lambda>k. (None, Some (ContextErr reason))),
      select = (\<lambda>k. CtxDone reason)\<rparr>"

text \<open>The transaction is mined already and the finalized block is ahead of it.\<close>

definition already_mined :: "unit env" where
  "already_mined =
     \<lparr>eth_getTransactionReceipt = (\<lambda>k h. (Some receipt100, None)),
      eth_getBlockByNumber_finalized = (\<lambda>k. header_at 101),
      select = (\<lambda>k. Tick)\<rparr>"

text \<open>
  The receipt fetch fails once and then finds the transaction mined; the finalized-block
  fetch fails once and would succeed from then on.
\<close>

definition fetches_fail_once :: "unit env" where
  "fetches_fail_once =
     \<lparr>eth_getTransactionReceipt =
        (\<lambda>k h. if k = 0 then (None, Some (CallFailed ''connection refused''))
               else (Some receipt100, None)),
      eth_getBlockByNumber_finalized =
        (\<lambda>k. if k = 0 then (None, Some (CallFailed ''connection refused'')) else header_at 101),
      select = (\<lambda>k. Tick)\<rparr>"

section \<open>Facts about the receipt fetch\<close>

lemma GetTransactionReceipt_contract: "result_xor_error (GetTransactionReceipt c)"
  by (simp add: GetTransactionReceipt_def result_xor_error_def split: prod.splits option.splits)

lemma is_mined_no_panic: "is_mined (GetTransactionReceipt c) \<noteq> Panic"
  by (auto simp: is_mined_def GetTransactionReceipt_def split: prod.splits option.splits)

lemma is_mined_cases:
  "is_mined (GetTransactionReceipt c) = Return True \<or>
   is_mined (GetTransactionReceipt c) = Return False"
proof (cases "is_mined (GetTransactionReceipt c)")
  case (Return m)
  then show ?thesis by (cases m) simp_all
next
  case Panic
  with is_mined_no_panic[of c] show ?thesis by simp
qed

text \<open>
  A fetch counts as mined exactly when the call succeeded with a receipt that carries a
  block number; a failed call, a \<^verbatim>\<open>null\<close> response and a receipt without block number
  all count as not mined.
\<close>

lemma mined_at_iff:
  "mined_at p txHash k \<longleftrightarrow>
     (\<exists>r b. eth_getTransactionReceipt p k txHash = (Some r, None) \<and> BlockNumber r = Some b)"
  by (cases "eth_getTransactionReceipt p k txHash")
     (auto simp: mined_at_def is_mined_def GetTransactionReceipt_def split: option.splits)

lemma mined_at_fetch:
  assumes "eth_getTransactionReceipt p k txHash = (Some r, None)" and "BlockNumber r = Some b"
  shows "mined_at p txHash k"
    and "fst (GetTransactionReceipt (eth_getTransactionReceipt p k txHash)) = Some r"
  using assms by (auto simp: mined_at_iff GetTransactionReceipt_def)

lemma all_less_Suc_shift: "(\<forall>i<Suc n. P i) \<longleftrightarrow> P 0 \<and> (\<forall>i<n. P (Suc i))"
  by (metis less_Suc_eq_0_disj Suc_less_eq zero_less_Suc)

lemma waiting_0: "waiting p txHash w 0"
  by (simp add: waiting_def)

lemma waiting_Suc:
  "waiting p txHash w (Suc n) \<longleftrightarrow>
     \<not> mined_at p txHash (receiptCalls w) \<and> select p (selects w) = Tick \<and>
     waiting p txHash (w\<lparr>receiptCalls := Suc (receiptCalls w), selects := Suc (selects w)\<rparr>) n"
  unfolding waiting_def by (subst all_less_Suc_shift) auto

lemma waiting_last:
  "waiting p txHash w (Suc n) \<Longrightarrow>
     \<not> mined_at p txHash (receiptCalls w + n) \<and> select p (selects w + n) = Tick"
  by (simp add: waiting_def)

section \<open>One round of WaitMined, and many\<close>

lemma WaitMined_mined:
  assumes "mined_at p txHash (receiptCalls w)"
  shows "WaitMined p txHash w =
           Some (Return (fst (GetTransactionReceipt
                                (eth_getTransactionReceipt p (receiptCalls w) txHash)), None),
                 w\<lparr>receiptCalls := Suc (receiptCalls w)\<rparr>)"
  using assms by (subst WaitMined.simps) (simp add: mined_at_def Let_def)

lemma WaitMined_tick:
  assumes "\<not> mined_at p txHash (receiptCalls w)" and "select p (selects w) = Tick"
  shows "WaitMined p txHash w =
           WaitMined p txHash (w\<lparr>receiptCalls := Suc (receiptCalls w), selects := Suc (selects w)\<rparr>)"
  using assms is_mined_cases[of "eth_getTransactionReceipt p (receiptCalls w) txHash"]
  by (subst WaitMined.simps) (auto simp add: mined_at_def Let_def)

lemma WaitMined_done:
  assumes "\<not> mined_at p txHash (receiptCalls w)" and "select p (selects w) = CtxDone reason"
  shows "WaitMined p txHash w =
           Some (Return (None, Some (ContextErr reason)),
                 w\<lparr>receiptCalls := Suc (receiptCalls w), selects := Suc (selects w)\<rparr>)"
  using assms is_mined_cases[of "eth_getTransactionReceipt p (receiptCalls w) txHash"]
  by (subst WaitMined.simps) (auto simp add: mined_at_def Let_def)

lemma WaitMined_polls:
  assumes "waiting p txHash w n"
  shows "WaitMined p txHash w =
           WaitMined p txHash (w\<lparr>receiptCalls := receiptCalls w + n, selects := selects w + n\<rparr>)"
  using assms
proof (induction n arbitrary: w)
  case 0
  then show ?case by simp
next
  case (Suc n)
  let ?w = "w\<lparr>receiptCalls := Suc (receiptCalls w), selects := Suc (selects w)\<rparr>"
  from Suc.prems have h: "\<not> mined_at p txHash (receiptCalls w)" "select p (selects w) = Tick"
    "waiting p txHash ?w n"
    by (simp_all add: waiting_Suc)
  from Suc.IH[OF h(3)] WaitMined_tick[OF h(1,2)] show ?case by simp
qed

text \<open>Every returning run of \<^verbatim>\<open>WaitMined\<close> is some rounds of waiting and one exit.\<close>

lemma WaitMined_Some:
  assumes "WaitMined p txHash w = Some y"
  shows "\<exists>n. waiting p txHash w n \<and>
           (if mined_at p txHash (receiptCalls w + n)
            then y = (Return (fst (GetTransactionReceipt
                                     (eth_getTransactionReceipt p (receiptCalls w + n) txHash)),
                              None),
                      w\<lparr>receiptCalls := receiptCalls w + Suc n, selects := selects w + n\<rparr>)
            else \<exists>reason. select p (selects w + n) = CtxDone reason \<and>
                   y = (Return (None, Some (ContextErr reason)),
                        w\<lparr>receiptCalls := receiptCalls w + Suc n,
                          selects := selects w + Suc n\<rparr>))"
  using assms
proof (induction p txHash w y rule: WaitMined.raw_induct[rotated 1, consumes 1])
  case (1 WM p txHash w y)
  let ?w2 = "w\<lparr>receiptCalls := Suc (receiptCalls w), selects := Suc (selects w)\<rparr>"
  note body = "1.hyps"
  show ?case
  proof (cases "mined_at p txHash (receiptCalls w)")
    case True
    with body have "y = (Return (fst (GetTransactionReceipt
                                     (eth_getTransactionReceipt p (receiptCalls w) txHash)), None),
                      w\<lparr>receiptCalls := Suc (receiptCalls w)\<rparr>)"
      by (auto simp: mined_at_def Let_def)
    with True waiting_0[of p txHash w] show ?thesis
      by (intro exI[of _ 0]) simp
  next
    case False
    then have nm: "is_mined (GetTransactionReceipt
                     (eth_getTransactionReceipt p (receiptCalls w) txHash)) = Return False"
      using is_mined_cases[of "eth_getTransactionReceipt p (receiptCalls w) txHash"]
      by (auto simp: mined_at_def)
    show ?thesis
    proof (cases "select p (selects w)")
      case (CtxDone reason)
      with nm body have "y = (Return (None, Some (ContextErr reason)), ?w2)"
        by (auto simp: Let_def)
      with False CtxDone waiting_0[of p txHash w] show ?thesis
        by (intro exI[of _ 0]) simp
    next
      case Tick
      with nm body have "WM p txHash ?w2 = Some y"
        by (auto simp: Let_def)
      from "1.IH"[OF this] obtain n where n: "waiting p txHash ?w2 n"
        "(if mined_at p txHash (receiptCalls ?w2 + n)
            then y = (Return (fst (GetTransactionReceipt
                                     (eth_getTransactionReceipt p (receiptCalls ?w2 + n) txHash)),
                              None),
                      ?w2\<lparr>receiptCalls := receiptCalls ?w2 + Suc n, selects := selects ?w2 + n\<rparr>)
            else \<exists>reason. select p (selects ?w2 + n) = CtxDone reason \<and>
                   y = (Return (None, Some (ContextErr reason)),
                        ?w2\<lparr>receiptCalls := receiptCalls ?w2 + Suc n,
                            selects := selects ?w2 + Suc n\<rparr>))"
        by blast
      from n(1) False Tick have "waiting p txHash w (Suc n)"
        by (simp add: waiting_Suc)
      with n(2) show ?thesis
        by (intro exI[of _ "Suc n"]) (simp split: if_splits)
    qed
  qed
qed

text \<open>
  What \<^verbatim>\<open>WaitMined\<close> can return: a receipt with a block number and no error, or no
  receipt and the context's error. It does not panic, and it leaves the finalized-block
  calls alone.
\<close>

lemma WaitMined_returns:
  assumes "WaitMined p txHash w = Some (out, w')"
  shows "((\<exists>r b. out = Return (Some r, None) \<and> BlockNumber r = Some b) \<or>
          (\<exists>reason. out = Return (None, Some (ContextErr reason)))) \<and>
         receiptCalls w < receiptCalls w' \<and> headerCalls w' = headerCalls w"
proof -
  from WaitMined_Some[OF assms] obtain n where
    n: "if mined_at p txHash (receiptCalls w + n)
        then (out, w') = (Return (fst (GetTransactionReceipt
                                     (eth_getTransactionReceipt p (receiptCalls w + n) txHash)),
                              None),
                      w\<lparr>receiptCalls := receiptCalls w + Suc n, selects := selects w + n\<rparr>)
        else \<exists>reason. select p (selects w + n) = CtxDone reason \<and>
                   (out, w') = (Return (None, Some (ContextErr reason)),
                        w\<lparr>receiptCalls := receiptCalls w + Suc n,
                          selects := selects w + Suc n\<rparr>)"
    by blast
  show ?thesis
  proof (cases "mined_at p txHash (receiptCalls w + n)")
    case True
    then obtain r b where
      "eth_getTransactionReceipt p (receiptCalls w + n) txHash = (Some r, None)"
      "BlockNumber r = Some b"
      by (auto simp: mined_at_iff)
    with n True mined_at_fetch(2)[OF this] show ?thesis by auto
  next
    case False
    with n show ?thesis by auto
  qed
qed

text \<open>\<^verbatim>\<open>WaitMined\<close> returns unless it waits forever.\<close>

lemma WaitMined_None_iff: "WaitMined p txHash w = None \<longleftrightarrow> (\<forall>n. waiting p txHash w n)"
proof
  assume none: "WaitMined p txHash w = None"
  show "\<forall>n. waiting p txHash w n"
  proof
    fix n
    show "waiting p txHash w n"
    proof (induction n)
      case 0
      show ?case by (rule waiting_0)
    next
      case (Suc n)
      let ?w = "w\<lparr>receiptCalls := receiptCalls w + n, selects := selects w + n\<rparr>"
      from WaitMined_polls[OF Suc] none have stuck: "WaitMined p txHash ?w = None" by simp
      have nm: "\<not> mined_at p txHash (receiptCalls w + n)"
      proof
        assume "mined_at p txHash (receiptCalls w + n)"
        then have "mined_at p txHash (receiptCalls ?w)" by simp
        from WaitMined_mined[OF this] stuck show False by simp
      qed
      have "select p (selects w + n) = Tick"
      proof (cases "select p (selects w + n)")
        case (CtxDone reason)
        from nm CtxDone have "\<not> mined_at p txHash (receiptCalls ?w)"
          "select p (selects ?w) = CtxDone reason" by simp_all
        from WaitMined_done[OF this] stuck show ?thesis by simp
      qed
      with nm Suc show ?case
        by (auto simp: waiting_def less_Suc_eq)
    qed
  qed
next
  assume forever: "\<forall>n. waiting p txHash w n"
  show "WaitMined p txHash w = None"
  proof (cases "WaitMined p txHash w")
    case (Some y)
    from WaitMined_Some[OF this] obtain n where
      "mined_at p txHash (receiptCalls w + n) \<or>
       (\<exists>reason. select p (selects w + n) = CtxDone reason)"
      by (auto split: if_splits)
    with waiting_last[of p txHash w n] forever show ?thesis by auto
  qed
qed

section \<open>Claims about WaitMined\<close>

text \<open>
  C1. Take any script of receipt fetches in which the call number \<open>n + 1\<close> is the first
  one that returns no error and a receipt whose block number is not nil: each of the
  \<open>n\<close> calls before it returned an error, or \<^verbatim>\<open>null\<close>, or a receipt without block
  number. If each wait after those \<open>n\<close> calls ended with a tick, \<^verbatim>\<open>WaitMined\<close> returns
  exactly the receipt of call \<open>n + 1\<close>, with a nil error, after \<open>n + 1\<close> fetches and \<open>n\<close>
  waits. The hypotheses speak of what the calls returned, not of the loop's condition.
\<close>

theorem WaitMined_returns_first_mined_receipt:
  assumes "\<forall>i<n. \<not> (\<exists>r' b'. eth_getTransactionReceipt p (receiptCalls w + i) txHash
                               = (Some r', None) \<and> BlockNumber r' = Some b')"
    and "\<forall>i<n. select p (selects w + i) = Tick"
    and "eth_getTransactionReceipt p (receiptCalls w + n) txHash = (Some r, None)"
    and "BlockNumber r = Some b"
  shows "WaitMined p txHash w =
           Some (Return (Some r, None),
                 w\<lparr>receiptCalls := receiptCalls w + Suc n, selects := selects w + n\<rparr>)"
proof -
  let ?w = "w\<lparr>receiptCalls := receiptCalls w + n, selects := selects w + n\<rparr>"
  from assms(1,2) have rounds: "waiting p txHash w n"
    by (simp add: waiting_def mined_at_iff)
  have "mined_at p txHash (receiptCalls ?w)"
    using mined_at_fetch(1)[OF assms(3,4)] by simp
  from WaitMined_mined[OF this] mined_at_fetch(2)[OF assms(3,4)]
  have "WaitMined p txHash ?w =
          Some (Return (Some r, None), ?w\<lparr>receiptCalls := Suc (receiptCalls ?w)\<rparr>)"
    by simp
  with WaitMined_polls[OF rounds] show ?thesis by simp
qed

text \<open>
  The scenario of the specification: identifier \<open>0xAA\<close>, poll sequence
  [NotFound, NotFound, {blockNumber: 100}]; the receipt comes back after 3 fetches.
  Then a sequence with a failed call and a receipt that has no block number yet: neither
  is returned, the third receipt is.
\<close>

theorem WaitMined_returns_first_mined_receipt_witness:
  "eth_getTransactionReceipt mined_at_third_poll 0 0xAA = (None, None) \<and>
   eth_getTransactionReceipt mined_at_third_poll 1 0xAA = (None, None) \<and>
   eth_getTransactionReceipt mined_at_third_poll 2 0xAA = (Some receipt100, None) \<and>
   select mined_at_third_poll 0 = Tick \<and>
   select mined_at_third_poll 1 = Tick \<and>
   BlockNumber receipt100 = Some 100 \<and>
   WaitMined mined_at_third_poll 0xAA start =
     Some (Return (Some receipt100, None), \<lparr>receiptCalls = 3, headerCalls = 0, selects = 2\<rparr>) \<and>
   eth_getTransactionReceipt failed_pending_mined 0 0xAA
     = (None, Some (CallFailed ''connection refused'')) \<and>
   eth_getTransactionReceipt failed_pending_mined 1 0xAA = (Some pending_receipt, None) \<and>
   BlockNumber pending_receipt = None \<and>
   eth_getTransactionReceipt failed_pending_mined 2 0xAA = (Some receipt100, None) \<and>
   select failed_pending_mined 0 = Tick \<and>
   select failed_pending_mined 1 = Tick \<and>
   WaitMined failed_pending_mined 0xAA start =
     Some (Return (Some receipt100, None), \<lparr>receiptCalls = 3, headerCalls = 0, selects = 2\<rparr>)"
proof -
  have less2: "\<And>i::nat. i < 2 \<longleftrightarrow> i = 0 \<or> i = 1"
    by auto
  have s: "eth_getTransactionReceipt mined_at_third_poll 0 0xAA = (None, None)"
    "eth_getTransactionReceipt mined_at_third_poll 1 0xAA = (None, None)"
    "select mined_at_third_poll 0 = Tick" "select mined_at_third_poll 1 = Tick"
    by (simp_all add: mined_at_third_poll_def)
  have a1: "\<forall>i<2. \<not> (\<exists>r' b'. eth_getTransactionReceipt mined_at_third_poll
                                   (receiptCalls start + i) 0xAA = (Some r', None) \<and>
                                 BlockNumber r' = Some b')"
    using s by (auto simp: less2 start_def)
  have a2: "\<forall>i<2. select mined_at_third_poll (selects start + i) = Tick"
    using s by (auto simp: less2 start_def)
  have a3: "eth_getTransactionReceipt mined_at_third_poll (receiptCalls start + 2) 0xAA
              = (Some receipt100, None)"
    by (simp add: mined_at_third_poll_def)
  have a4: "BlockNumber receipt100 = Some 100"
    by (simp add: receipt100_def)
  have t: "eth_getTransactionReceipt failed_pending_mined 0 0xAA
             = (None, Some (CallFailed ''connection refused''))"
    "eth_getTransactionReceipt failed_pending_mined 1 0xAA = (Some pending_receipt, None)"
    "select failed_pending_mined 0 = Tick" "select failed_pending_mined 1 = Tick"
    by (simp_all add: failed_pending_mined_def)
  have pend: "BlockNumber pending_receipt = None"
    by (simp add: pending_receipt_def)
  have b1: "\<forall>i<2. \<not> (\<exists>r' b'. eth_getTransactionReceipt failed_pending_mined
                                   (receiptCalls start + i) 0xAA = (Some r', None) \<and>
                                 BlockNumber r' = Some b')"
    using t pend by (auto simp: less2 start_def)
  have b2: "\<forall>i<2. select failed_pending_mined (selects start + i) = Tick"
    using t by (auto simp: less2 start_def)
  have b3: "eth_getTransactionReceipt failed_pending_mined (receiptCalls start + 2) 0xAA
              = (Some receipt100, None)"
    by (simp add: failed_pending_mined_def)
  have c3: "eth_getTransactionReceipt mined_at_third_poll 2 0xAA = (Some receipt100, None)"
    "eth_getTransactionReceipt failed_pending_mined 2 0xAA = (Some receipt100, None)"
    by (simp_all add: mined_at_third_poll_def failed_pending_mined_def)
  from WaitMined_returns_first_mined_receipt[OF a1 a2 a3 a4]
  have r1: "WaitMined mined_at_third_poll 0xAA start =
              Some (Return (Some receipt100, None),
                    \<lparr>receiptCalls = 3, headerCalls = 0, selects = 2\<rparr>)"
    by (simp add: start_def)
  from WaitMined_returns_first_mined_receipt[OF b1 b2 b3 a4]
  have r2: "WaitMined failed_pending_mined 0xAA start =
              Some (Return (Some receipt100, None),
                    \<lparr>receiptCalls = 3, headerCalls = 0, selects = 2\<rparr>)"
    by (simp add: start_def)
  from s t c3 a4 pend r1 r2 show ?thesis
    by blast
qed

text \<open>
  C4, as amended. If a wait of \<^verbatim>\<open>WaitMined\<close> is ended by the cancellation signal (its
  \<^verbatim>\<open>select\<close> takes the \<^verbatim>\<open>ctx.Done()\<close> case) before any receipt fetch has succeeded with a
  block number, \<^verbatim>\<open>WaitMined\<close> returns no receipt and the error \<^verbatim>\<open>ctx.Err()\<close>, which
  carries the reason of the cancellation.
\<close>

theorem WaitMined_cancelled_while_waiting:
  assumes "waiting p txHash w n"
    and "\<not> mined_at p txHash (receiptCalls w + n)"
    and "select p (selects w + n) = CtxDone reason"
  shows "WaitMined p txHash w =
           Some (Return (None, Some (ContextErr reason)),
                 w\<lparr>receiptCalls := receiptCalls w + Suc n, selects := selects w + Suc n\<rparr>)"
proof -
  let ?w = "w\<lparr>receiptCalls := receiptCalls w + n, selects := selects w + n\<rparr>"
  from assms(2,3) have "\<not> mined_at p txHash (receiptCalls ?w)"
    "select p (selects ?w) = CtxDone reason"
    by simp_all
  from WaitMined_done[OF this] WaitMined_polls[OF assms(1)] show ?thesis by simp
qed

text \<open>
  The scenario of the specification: a deadline of two ticks and a receipt that never
  becomes available; \<^verbatim>\<open>WaitMined\<close> fails at the third wait with the deadline's error.
\<close>

theorem WaitMined_cancelled_while_waiting_witness:
  "waiting deadline_after_two_ticks 0xAA start 2 \<and>
   \<not> mined_at deadline_after_two_ticks 0xAA (receiptCalls start + 2) \<and>
   select deadline_after_two_ticks (selects start + 2) = CtxDone DeadlineExceeded \<and>
   WaitMined deadline_after_two_ticks 0xAA start =
     Some (Return (None, Some (ContextErr DeadlineExceeded)),
           \<lparr>receiptCalls = 3, headerCalls = 0, selects = 3\<rparr>)"
proof -
  have h1: "waiting deadline_after_two_ticks 0xAA start 2"
    by (simp add: numeral_2_eq_2 waiting_Suc waiting_0 mined_at_iff
        deadline_after_two_ticks_def start_def)
  have h2: "\<not> mined_at deadline_after_two_ticks 0xAA (receiptCalls start + 2)"
    by (simp add: mined_at_iff deadline_after_two_ticks_def)
  have h3: "select deadline_after_two_ticks (selects start + 2) = CtxDone DeadlineExceeded"
    by (simp add: deadline_after_two_ticks_def)
  from WaitMined_cancelled_while_waiting[OF h1 h2 h3] h1 h2 h3 show ?thesis
    by (simp add: start_def)
qed

text \<open>
  C4 as it was stated fails: a cancellation that fired before the call, hence before
  any receipt fetch has succeeded, does not make \<^verbatim>\<open>WaitMined\<close> fail when the first
  fetch finds the transaction mined. The receipt is returned and the error is nil.
\<close>

theorem WaitMined_cancelled_before_call_counterexample:
  "select (done_before_call Canceled) (selects start) = CtxDone Canceled \<and>
   WaitMined (done_before_call Canceled) 0xAA start =
     Some (Return (Some receipt100, None), \<lparr>receiptCalls = 1, headerCalls = 0, selects = 0\<rparr>)"
proof -
  have "mined_at (done_before_call Canceled) 0xAA (receiptCalls start)"
    by (simp add: mined_at_iff done_before_call_def receipt100_def)
  from WaitMined_mined[OF this] show ?thesis
    by (simp add: done_before_call_def GetTransactionReceipt_def start_def)
qed

text \<open>
  C5. If no receipt fetch ever succeeds with a block number and no wait is ever ended by
  the cancellation signal, \<^verbatim>\<open>WaitMined\<close> never returns: nothing else bounds the number of
  its attempts.
\<close>

theorem WaitMined_polls_forever:
  assumes "\<forall>k. \<not> mined_at p txHash (receiptCalls w + k)"
    and "\<forall>k. select p (selects w + k) = Tick"
  shows "WaitMined p txHash w = None"
  using assms by (simp add: WaitMined_None_iff waiting_def)

theorem WaitMined_polls_forever_witness:
  "(\<forall>k. \<not> mined_at never_mined 0xAA (receiptCalls start + k)) \<and>
   (\<forall>k. select never_mined (selects start + k) = Tick) \<and>
   WaitMined never_mined 0xAA start = None"
proof -
  have h1: "\<forall>k. \<not> mined_at never_mined 0xAA (receiptCalls start + k)"
    by (simp add: mined_at_iff never_mined_def)
  have h2: "\<forall>k. select never_mined (selects start + k) = Tick"
    by (simp add: never_mined_def)
  from WaitMined_polls_forever[OF h1 h2] h1 h2 show ?thesis by simp
qed

text \<open>
  C8. When the receipt fetch already yields a receipt \<open>r\<close> with a block number, two
  calls of \<^verbatim>\<open>WaitMined\<close> in a row with the same identifier both return \<open>r\<close>, and each
  makes one receipt fetch and waits for no tick.
\<close>

theorem WaitMined_idempotent_when_mined:
  assumes "eth_getTransactionReceipt p (receiptCalls w) txHash = (Some r, None)"
    and "eth_getTransactionReceipt p (Suc (receiptCalls w)) txHash = (Some r, None)"
    and "BlockNumber r = Some b"
  shows "WaitMined p txHash w =
           Some (Return (Some r, None), w\<lparr>receiptCalls := Suc (receiptCalls w)\<rparr>) \<and>
         WaitMined p txHash (w\<lparr>receiptCalls := Suc (receiptCalls w)\<rparr>) =
           Some (Return (Some r, None), w\<lparr>receiptCalls := Suc (Suc (receiptCalls w))\<rparr>)"
proof -
  let ?w1 = "w\<lparr>receiptCalls := Suc (receiptCalls w)\<rparr>"
  have "mined_at p txHash (receiptCalls w)"
    by (rule mined_at_fetch(1)[OF assms(1,3)])
  from WaitMined_mined[OF this] mined_at_fetch(2)[OF assms(1,3)]
  have first: "WaitMined p txHash w = Some (Return (Some r, None), ?w1)"
    by simp
  have "mined_at p txHash (receiptCalls ?w1)"
    using mined_at_fetch(1)[OF assms(2,3)] by simp
  from WaitMined_mined[OF this] mined_at_fetch(2)[OF assms(2,3)]
  have "WaitMined p txHash ?w1 =
          Some (Return (Some r, None), w\<lparr>receiptCalls := Suc (Suc (receiptCalls w))\<rparr>)"
    by simp
  with first show ?thesis by simp
qed

theorem WaitMined_idempotent_when_mined_witness:
  "eth_getTransactionReceipt already_mined (receiptCalls start) 0xAA = (Some receipt100, None) \<and>
   eth_getTransactionReceipt already_mined (Suc (receiptCalls start)) 0xAA
     = (Some receipt100, None) \<and>
   BlockNumber receipt100 = Some 100 \<and>
   WaitMined already_mined 0xAA start =
     Some (Return (Some receipt100, None), \<lparr>receiptCalls = 1, headerCalls = 0, selects = 0\<rparr>) \<and>
   WaitMined already_mined 0xAA \<lparr>receiptCalls = 1, headerCalls = 0, selects = 0\<rparr> =
     Some (Return (Some receipt100, None), \<lparr>receiptCalls = 2, headerCalls = 0, selects = 0\<rparr>)"
proof -
  have h1: "eth_getTransactionReceipt already_mined (receiptCalls start) 0xAA
              = (Some receipt100, None)"
    by (simp add: already_mined_def)
  have h2: "eth_getTransactionReceipt already_mined (Suc (receiptCalls start)) 0xAA
              = (Some receipt100, None)"
    by (simp add: already_mined_def)
  have h3: "BlockNumber receipt100 = Some 100"
    by (simp add: receipt100_def)
  from WaitMined_idempotent_when_mined[OF h1 h2 h3] h1 h2 h3 show ?thesis
    by (simp add: start_def numeral_2_eq_2)
qed

text \<open>
  C10. \<^verbatim>\<open>WaitMined\<close> looks at the cancellation signal only after a receipt fetch: every
  call that returns has made at least one receipt fetch, a call that does not return
  keeps fetching, and when the first fetch yields a receipt with a block number the
  call returns that receipt with a nil error whatever the state of the context, also
  one that was done before the call.
\<close>

theorem WaitMined_fetches_before_cancellation:
  "(case WaitMined p txHash w of
      None \<Rightarrow> \<forall>n. waiting p txHash w n
    | Some (out, w') \<Rightarrow> receiptCalls w < receiptCalls w') \<and>
   (eth_getTransactionReceipt p (receiptCalls w) txHash = (Some r, None) \<and>
    BlockNumber r = Some b \<longrightarrow>
      WaitMined p txHash w =
        Some (Return (Some r, None), w\<lparr>receiptCalls := Suc (receiptCalls w)\<rparr>))"
proof (intro conjI impI)
  show "case WaitMined p txHash w of
          None \<Rightarrow> \<forall>n. waiting p txHash w n
        | Some (out, w') \<Rightarrow> receiptCalls w < receiptCalls w'"
  proof (cases "WaitMined p txHash w")
    case None
    then have "\<forall>n. waiting p txHash w n" by (simp add: WaitMined_None_iff)
    with None show ?thesis by simp
  next
    case (Some y)
    obtain out w' where "y = (out, w')" by (cases y)
    with Some WaitMined_returns[of p txHash w out w'] show ?thesis by simp
  qed
next
  assume a: "eth_getTransactionReceipt p (receiptCalls w) txHash = (Some r, None) \<and>
             BlockNumber r = Some b"
  then have "mined_at p txHash (receiptCalls w)"
    by (auto simp: mined_at_iff)
  from WaitMined_mined[OF this] a show
    "WaitMined p txHash w =
       Some (Return (Some r, None), w\<lparr>receiptCalls := Suc (receiptCalls w)\<rparr>)"
    by (simp add: GetTransactionReceipt_def)
qed

text \<open>The deadline has passed before the call and the transaction is mined.\<close>

theorem WaitMined_fetches_before_cancellation_witness:
  "select (done_before_call DeadlineExceeded) (selects start) = CtxDone DeadlineExceeded \<and>
   eth_getTransactionReceipt (done_before_call DeadlineExceeded) (receiptCalls start) 0xAA
     = (Some receipt100, None) \<and>
   BlockNumber receipt100 = Some 100 \<and>
   WaitMined (done_before_call DeadlineExceeded) 0xAA start =
     Some (Return (Some receipt100, None), \<lparr>receiptCalls = 1, headerCalls = 0, selects = 0\<rparr>) \<and>
   receiptCalls start < 1"
proof -
  have h: "eth_getTransactionReceipt (done_before_call DeadlineExceeded) (receiptCalls start) 0xAA
             = (Some receipt100, None) \<and> BlockNumber receipt100 = Some 100"
    by (simp add: done_before_call_def receipt100_def)
  from WaitMined_fetches_before_cancellation
         [of "done_before_call DeadlineExceeded" "0xAA" start receipt100 100]
  have both: "(case WaitMined (done_before_call DeadlineExceeded) 0xAA start of
            None \<Rightarrow> \<forall>n. waiting (done_before_call DeadlineExceeded) 0xAA start n
          | Some (out, w') \<Rightarrow> receiptCalls start < receiptCalls w') \<and>
        WaitMined (done_before_call DeadlineExceeded) 0xAA start =
          Some (Return (Some receipt100, None), start\<lparr>receiptCalls := Suc (receiptCalls start)\<rparr>)"
    using h by blast
  then have "receiptCalls start < 1"
    by (simp add: start_def)
  with both h show ?thesis
    by (simp add: start_def done_before_call_def)
qed

section \<open>One round of the second loop, and many\<close>

lemma catching_up_0: "catching_up p b w 0"
  by (simp add: catching_up_def)

lemma catching_up_Suc:
  "catching_up p b w (Suc n) \<longleftrightarrow>
     behind_at p b (headerCalls w) \<and> select p (selects w) = Tick \<and>
     catching_up p b (w\<lparr>headerCalls := Suc (headerCalls w), selects := Suc (selects w)\<rparr>) n"
  unfolding catching_up_def by (subst all_less_Suc_shift) auto

lemma not_behind_and_reached: "\<not> (behind_at p b k \<and> reached_at p b k)"
  by (auto simp: behind_at_def reached_at_def split: option.splits)

lemma loop_reached:
  assumes "BlockNumber r = Some b" and "reached_at p b (headerCalls w)"
  shows "WaitFinalized_loop p r w =
           Some (Return (Some r, None), w\<lparr>headerCalls := Suc (headerCalls w)\<rparr>)"
  using assms
  by (subst WaitFinalized_loop.simps)
     (auto simp: reached_at_def header_number_def Cmp_def Let_def split: prod.splits option.splits)

lemma loop_tick:
  assumes "BlockNumber r = Some b" and "behind_at p b (headerCalls w)"
    and "select p (selects w) = Tick"
  shows "WaitFinalized_loop p r w =
           WaitFinalized_loop p r
             (w\<lparr>headerCalls := Suc (headerCalls w), selects := Suc (selects w)\<rparr>)"
  using assms
  by (subst WaitFinalized_loop.simps)
     (auto simp: behind_at_def header_number_def Cmp_def Let_def split: prod.splits option.splits)

lemma loop_failed:
  assumes "eth_getBlockByNumber_finalized p (headerCalls w) = (blockHead, err)"
    and "err \<noteq> None \<or> blockHead = None"
  shows "WaitFinalized_loop p r w =
           Some (Return (None, Some (Errorf ''failed to get finalized block''
                                       (case err of Some e \<Rightarrow> e | None \<Rightarrow> NotFound))),
                 w\<lparr>headerCalls := Suc (headerCalls w)\<rparr>)"
  using assms
  by (subst WaitFinalized_loop.simps) (auto simp: Let_def split: option.splits)

lemma loop_polls:
  assumes "BlockNumber r = Some b" and "catching_up p b w n"
  shows "WaitFinalized_loop p r w =
           WaitFinalized_loop p r
             (w\<lparr>headerCalls := headerCalls w + n, selects := selects w + n\<rparr>)"
  using assms(2)
proof (induction n arbitrary: w)
  case 0
  then show ?case by simp
next
  case (Suc n)
  let ?w = "w\<lparr>headerCalls := Suc (headerCalls w), selects := Suc (selects w)\<rparr>"
  from Suc.prems have h: "behind_at p b (headerCalls w)" "select p (selects w) = Tick"
    "catching_up p b ?w n"
    by (simp_all add: catching_up_Suc)
  from Suc.IH[OF h(3)] loop_tick[OF assms(1) h(1,2)] show ?case by simp
qed

text \<open>Every returning run of the second loop is some rounds of catching up and one exit.\<close>

lemma loop_Some:
  assumes "WaitFinalized_loop p r w = Some y" and "BlockNumber r = Some b"
  shows "\<exists>n. catching_up p b w n \<and> loop_exit p r b w n y"
  using assms
proof (induction p r w y rule: WaitFinalized_loop.raw_induct[rotated 1, consumes 1])
  case (1 WL p r w y)
  let ?w2 = "w\<lparr>headerCalls := Suc (headerCalls w), selects := Suc (selects w)\<rparr>"
  note bn = \<open>BlockNumber r = Some b\<close>
  note body = "1.hyps"
  consider (reached) "reached_at p b (headerCalls w)"
    | (stopped) reason where "behind_at p b (headerCalls w)"
        "select p (selects w) = CtxDone reason"
    | (tick) "behind_at p b (headerCalls w)" "select p (selects w) = Tick"
    | (other) "\<not> reached_at p b (headerCalls w)" "\<not> behind_at p b (headerCalls w)"
    by (cases "select p (selects w)") auto
  then show ?case
  proof cases
    case reached
    with body bn have "y = (Return (Some r, None), w\<lparr>headerCalls := Suc (headerCalls w)\<rparr>)"
      by (auto simp: reached_at_def header_number_def Cmp_def Let_def
               split: prod.splits option.splits if_splits)
    with reached show ?thesis
      by (intro exI[of _ 0]) (simp add: catching_up_0 loop_exit_def)
  next
    case stopped
    with body bn have "y = (Return (None, Some (ContextErr reason)), ?w2)"
      by (auto simp: behind_at_def header_number_def Cmp_def Let_def
               split: prod.splits option.splits if_splits)
    with stopped not_behind_and_reached[of p b "headerCalls w"] show ?thesis
      by (intro exI[of _ 0]) (auto simp add: catching_up_0 loop_exit_def)
  next
    case tick
    with body bn have "WL p r ?w2 = Some y"
      by (auto simp: behind_at_def header_number_def Cmp_def Let_def
               split: prod.splits option.splits if_splits)
    from "1.IH"[OF this bn] obtain n where n: "catching_up p b ?w2 n" "loop_exit p r b ?w2 n y"
      by blast
    from n(1) tick have "catching_up p b w (Suc n)"
      by (simp add: catching_up_Suc)
    moreover from n(2) have "loop_exit p r b w (Suc n) y"
      by (simp add: loop_exit_def Let_def cong: if_cong)
    ultimately show ?thesis by blast
  next
    case other
    with body bn have "loop_exit p r b w 0 y"
      by (auto simp: loop_exit_def reached_at_def behind_at_def header_number_def Cmp_def Let_def
               split: prod.splits option.splits if_splits)
    then show ?thesis
      by (intro exI[of _ 0]) (simp add: catching_up_0)
  qed
qed

text \<open>The errors with which the second loop can exit.\<close>

lemma loop_exit_error:
  assumes "loop_exit p r b w n (Return (res, Some e), w')"
  shows "(\<exists>cause. e = Errorf ''failed to get finalized block'' cause) \<or>
         (\<exists>reason. e = ContextErr reason)"
  using assms
  by (auto simp: loop_exit_def Let_def split: if_splits prod.splits option.splits)

lemma loop_exit_success:
  assumes "loop_exit p r b w n (Return (res, None), w')"
  shows "res = Some r \<and> reached_at p b (headerCalls w + n) \<and>
         w' = w\<lparr>headerCalls := headerCalls w + Suc n, selects := selects w + n\<rparr>"
  using assms
  by (auto simp: loop_exit_def Let_def split: if_splits prod.splits option.splits)

section \<open>WaitFinalized after its call of WaitMined\<close>

lemma WaitFinalized_mined:
  assumes "WaitMined p txHash w = Some (Return (Some r, None), w1)"
    and "BlockNumber r = Some b"
  shows "WaitFinalized p txHash w = WaitFinalized_loop p r w1"
  using assms by (simp add: WaitFinalized_def WaitFinalized_after_def)

lemma WaitFinalized_not_mined:
  assumes "WaitMined p txHash w = Some (Return (receipt, Some e), w1)"
  shows "WaitFinalized p txHash w =
           Some (Return (None, Some (Errorf ''failed to wait for tx is mined'' e)), w1)"
  using assms by (simp add: WaitFinalized_def WaitFinalized_after_def)

lemma WaitFinalized_Some:
  assumes "WaitFinalized p txHash w = Some y"
  shows "(\<exists>r b w1. WaitMined p txHash w = Some (Return (Some r, None), w1) \<and>
            BlockNumber r = Some b \<and> WaitFinalized_loop p r w1 = Some y) \<or>
         (\<exists>reason w1. WaitMined p txHash w = Some (Return (None, Some (ContextErr reason)), w1) \<and>
            y = (Return (None, Some (Errorf ''failed to wait for tx is mined''
                                        (ContextErr reason))), w1))"
proof -
  from assms obtain out w1 where m: "WaitMined p txHash w = Some (out, w1)"
    and a: "WaitFinalized_after p (out, w1) = Some y"
    by (auto simp: WaitFinalized_def bind_eq_Some_conv)
  from WaitMined_returns[OF m] consider
      (mined) r b where "out = Return (Some r, None)" "BlockNumber r = Some b"
    | (failed) reason where "out = Return (None, Some (ContextErr reason))"
    by blast
  then show ?thesis
  proof cases
    case mined
    with m a show ?thesis by (auto simp: WaitFinalized_after_def)
  next
    case failed
    with m a show ?thesis by (auto simp: WaitFinalized_after_def)
  qed
qed

text \<open>The two wait operations on the scenario of the specification.\<close>

lemma mined_at_third_poll_WaitMined:
  "WaitMined mined_at_third_poll 0xAA start =
     Some (Return (Some receipt100, None), \<lparr>receiptCalls = 3, headerCalls = 0, selects = 2\<rparr>)"
proof -
  have "waiting mined_at_third_poll 0xAA start (Suc (Suc 0))"
    by (simp add: waiting_Suc waiting_0 mined_at_iff mined_at_third_poll_def start_def)
  from WaitMined_polls[OF this]
  have "WaitMined mined_at_third_poll 0xAA start =
          WaitMined mined_at_third_poll 0xAA \<lparr>receiptCalls = 2, headerCalls = 0, selects = 2\<rparr>"
    by (simp add: start_def numeral_2_eq_2)
  moreover have "mined_at mined_at_third_poll 0xAA
                   (receiptCalls \<lparr>receiptCalls = 2, headerCalls = 0, selects = 2\<rparr>)"
    by (simp add: mined_at_iff mined_at_third_poll_def receipt100_def)
  from WaitMined_mined[OF this]
  have "WaitMined mined_at_third_poll 0xAA \<lparr>receiptCalls = 2, headerCalls = 0, selects = 2\<rparr> =
          Some (Return (Some receipt100, None), \<lparr>receiptCalls = 3, headerCalls = 0, selects = 2\<rparr>)"
    by (simp add: mined_at_third_poll_def GetTransactionReceipt_def numeral_3_eq_3 numeral_2_eq_2)
  ultimately show ?thesis by simp
qed

section \<open>Claims about WaitFinalized\<close>

text \<open>
  C2. \<^verbatim>\<open>WaitFinalized\<close> returns successfully (with a nil error) exactly when its call of
  \<^verbatim>\<open>WaitMined\<close> returned a receipt and the finalized block, fetched once per round, was
  below the receipt's block number for some rounds and then at or above it for the
  first time; the receipt it returns is the one \<^verbatim>\<open>WaitMined\<close> returned.
\<close>

theorem WaitFinalized_success_iff:
  "WaitFinalized p txHash w = Some (Return (res, None), w') \<longleftrightarrow>
     (\<exists>r b w1 n.
        res = Some r \<and>
        WaitMined p txHash w = Some (Return (Some r, None), w1) \<and>
        BlockNumber r = Some b \<and>
        catching_up p b w1 n \<and>
        reached_at p b (headerCalls w1 + n) \<and>
        w' = w1\<lparr>headerCalls := headerCalls w1 + Suc n, selects := selects w1 + n\<rparr>)"
proof
  assume ok: "WaitFinalized p txHash w = Some (Return (res, None), w')"
  from WaitFinalized_Some[OF ok] obtain r b w1 where
    m: "WaitMined p txHash w = Some (Return (Some r, None), w1)" "BlockNumber r = Some b"
    and l: "WaitFinalized_loop p r w1 = Some (Return (res, None), w')"
    by auto
  from loop_Some[OF l m(2)] obtain n where
    n: "catching_up p b w1 n" "loop_exit p r b w1 n (Return (res, None), w')"
    by blast
  from loop_exit_success[OF n(2)] m n(1)
  show "\<exists>r b w1 n.
        res = Some r \<and>
        WaitMined p txHash w = Some (Return (Some r, None), w1) \<and>
        BlockNumber r = Some b \<and>
        catching_up p b w1 n \<and>
        reached_at p b (headerCalls w1 + n) \<and>
        w' = w1\<lparr>headerCalls := headerCalls w1 + Suc n, selects := selects w1 + n\<rparr>"
    by blast
next
  assume "\<exists>r b w1 n.
        res = Some r \<and>
        WaitMined p txHash w = Some (Return (Some r, None), w1) \<and>
        BlockNumber r = Some b \<and>
        catching_up p b w1 n \<and>
        reached_at p b (headerCalls w1 + n) \<and>
        w' = w1\<lparr>headerCalls := headerCalls w1 + Suc n, selects := selects w1 + n\<rparr>"
  then obtain r b w1 n where res: "res = Some r"
    and m: "WaitMined p txHash w = Some (Return (Some r, None), w1)" "BlockNumber r = Some b"
    and c: "catching_up p b w1 n"
    and f: "reached_at p b (headerCalls w1 + n)"
    and w': "w' = w1\<lparr>headerCalls := headerCalls w1 + Suc n, selects := selects w1 + n\<rparr>"
    by blast
  let ?w = "w1\<lparr>headerCalls := headerCalls w1 + n, selects := selects w1 + n\<rparr>"
  from f have "reached_at p b (headerCalls ?w)" by simp
  from loop_reached[OF m(2) this] loop_polls[OF m(2) c] WaitFinalized_mined[OF m] res w'
  show "WaitFinalized p txHash w = Some (Return (res, None), w')"
    by simp
qed

text \<open>
  The scenario of the specification: receipt with block number 100, finalized headers
  [98, 99, 101]; \<^verbatim>\<open>WaitFinalized\<close> returns the receipt after 3 header fetches.
\<close>

theorem WaitFinalized_success_iff_witness:
  "WaitMined mined_at_third_poll 0xAA start =
     Some (Return (Some receipt100, None), \<lparr>receiptCalls = 3, headerCalls = 0, selects = 2\<rparr>) \<and>
   BlockNumber receipt100 = Some 100 \<and>
   catching_up mined_at_third_poll 100 \<lparr>receiptCalls = 3, headerCalls = 0, selects = 2\<rparr> 2 \<and>
   reached_at mined_at_third_poll 100 2 \<and>
   WaitFinalized mined_at_third_poll 0xAA start =
     Some (Return (Some receipt100, None), \<lparr>receiptCalls = 3, headerCalls = 3, selects = 4\<rparr>)"
proof -
  let ?w1 = "\<lparr>receiptCalls = 3, headerCalls = 0, selects = 2\<rparr>"
  note h1 = mined_at_third_poll_WaitMined
  have h2: "BlockNumber receipt100 = Some 100"
    by (simp add: receipt100_def)
  have h3: "catching_up mined_at_third_poll 100 ?w1 2"
    by (simp add: numeral_2_eq_2 catching_up_Suc catching_up_0 behind_at_def header_number_def
        header_at_def mined_at_third_poll_def)
  have h4: "reached_at mined_at_third_poll 100 2"
    by (simp add: reached_at_def header_number_def header_at_def mined_at_third_poll_def)
  have "\<exists>r b w1 n.
        Some receipt100 = Some r \<and>
        WaitMined mined_at_third_poll 0xAA start = Some (Return (Some r, None), w1) \<and>
        BlockNumber r = Some b \<and>
        catching_up mined_at_third_poll b w1 n \<and>
        reached_at mined_at_third_poll b (headerCalls w1 + n) \<and>
        \<lparr>receiptCalls = 3, headerCalls = 3, selects = 4\<rparr> =
          w1\<lparr>headerCalls := headerCalls w1 + Suc n, selects := selects w1 + n\<rparr>"
    apply (rule exI[of _ receipt100], rule exI[of _ 100], rule exI[of _ ?w1], rule exI[of _ 2])
    using h1 h2 h3 h4 by (simp add: numeral_2_eq_2)
  with WaitFinalized_success_iff
         [of mined_at_third_poll "0xAA" start "Some receipt100"
             "\<lparr>receiptCalls = 3, headerCalls = 3, selects = 4\<rparr>"]
  have "WaitFinalized mined_at_third_poll 0xAA start =
     Some (Return (Some receipt100, None), \<lparr>receiptCalls = 3, headerCalls = 3, selects = 4\<rparr>)"
    by blast
  with h1 h2 h3 h4 show ?thesis by simp
qed

text \<open>
  C3. In the second loop of \<^verbatim>\<open>WaitFinalized\<close>, a finalized-block fetch that returns an
  error, or no error and no header, ends the operation at once: it returns no receipt
  and the error \<^verbatim>\<open>failed to get finalized block: ...\<close> wrapping the fetch's error,
  respectively \<^verbatim>\<open>ethereum.NotFound\<close>. The failed fetch is the last one and no wait
  follows it, whatever later fetches would have returned. \<^verbatim>\<open>WaitMined\<close> differs: after
  a receipt fetch that returned an error it waits for the tick and fetches again.
\<close>

theorem WaitFinalized_fetch_failure_is_fatal:
  assumes "WaitMined p txHash w = Some (Return (Some r, None), w1)"
    and "BlockNumber r = Some b"
    and "catching_up p b w1 n"
    and "eth_getBlockByNumber_finalized p (headerCalls w1 + n) = (blockHead, err)"
    and "err \<noteq> None \<or> blockHead = None"
  shows "WaitFinalized p txHash w =
           Some (Return (None, Some (Errorf ''failed to get finalized block''
                                       (case err of Some e \<Rightarrow> e | None \<Rightarrow> NotFound))),
                 w1\<lparr>headerCalls := headerCalls w1 + Suc n, selects := selects w1 + n\<rparr>) \<and>
         (eth_getTransactionReceipt p (receiptCalls v) txHash = (resp, Some e') \<and>
          select p (selects v) = Tick \<longrightarrow>
            WaitMined p txHash v =
              WaitMined p txHash
                (v\<lparr>receiptCalls := Suc (receiptCalls v), selects := Suc (selects v)\<rparr>))"
proof (intro conjI impI)
  let ?w = "w1\<lparr>headerCalls := headerCalls w1 + n, selects := selects w1 + n\<rparr>"
  from assms(4) have "eth_getBlockByNumber_finalized p (headerCalls ?w) = (blockHead, err)"
    by simp
  from loop_failed[OF this assms(5)] loop_polls[OF assms(2,3)] WaitFinalized_mined[OF assms(1,2)]
  show "WaitFinalized p txHash w =
           Some (Return (None, Some (Errorf ''failed to get finalized block''
                                       (case err of Some e \<Rightarrow> e | None \<Rightarrow> NotFound))),
                 w1\<lparr>headerCalls := headerCalls w1 + Suc n, selects := selects w1 + n\<rparr>)"
    by simp
next
  assume a: "eth_getTransactionReceipt p (receiptCalls v) txHash = (resp, Some e') \<and>
             select p (selects v) = Tick"
  then have "\<not> mined_at p txHash (receiptCalls v)"
    by (simp add: mined_at_iff)
  from WaitMined_tick[OF this] a show
    "WaitMined p txHash v =
       WaitMined p txHash (v\<lparr>receiptCalls := Suc (receiptCalls v), selects := Suc (selects v)\<rparr>)"
    by simp
qed

text \<open>
  The test of the specification: each fetch fails once and would succeed afterwards.
  \<^verbatim>\<open>WaitMined\<close> fetches again and returns the receipt; \<^verbatim>\<open>WaitFinalized\<close> fails after its
  first finalized-block fetch, although the second one would have finalized the receipt.
\<close>

theorem WaitFinalized_fetch_failure_is_fatal_witness:
  "eth_getTransactionReceipt fetches_fail_once 0 0xAA
     = (None, Some (CallFailed ''connection refused'')) \<and>
   select fetches_fail_once 0 = Tick \<and>
   WaitMined fetches_fail_once 0xAA start =
     WaitMined fetches_fail_once 0xAA \<lparr>receiptCalls = 1, headerCalls = 0, selects = 1\<rparr> \<and>
   WaitMined fetches_fail_once 0xAA start =
     Some (Return (Some receipt100, None), \<lparr>receiptCalls = 2, headerCalls = 0, selects = 1\<rparr>) \<and>
   BlockNumber receipt100 = Some 100 \<and>
   catching_up fetches_fail_once 100 \<lparr>receiptCalls = 2, headerCalls = 0, selects = 1\<rparr> 0 \<and>
   eth_getBlockByNumber_finalized fetches_fail_once 0
     = (None, Some (CallFailed ''connection refused'')) \<and>
   reached_at fetches_fail_once 100 1 \<and>
   WaitFinalized fetches_fail_once 0xAA start =
     Some (Return (None, Some (Errorf ''failed to get finalized block''
                                 (CallFailed ''connection refused''))),
           \<lparr>receiptCalls = 2, headerCalls = 1, selects = 1\<rparr>)"
proof -
  let ?v1 = "\<lparr>receiptCalls = 1, headerCalls = 0, selects = 1\<rparr>"
  let ?w1 = "\<lparr>receiptCalls = 2, headerCalls = 0, selects = 1\<rparr>"
  have g1: "eth_getTransactionReceipt fetches_fail_once (receiptCalls start) 0xAA
              = (None, Some (CallFailed ''connection refused'')) \<and>
            select fetches_fail_once (selects start) = Tick"
    by (simp add: fetches_fail_once_def start_def)
  have "\<not> mined_at fetches_fail_once 0xAA (receiptCalls start)"
    "select fetches_fail_once (selects start) = Tick"
    by (simp_all add: mined_at_iff fetches_fail_once_def start_def)
  from WaitMined_tick[OF this]
  have "WaitMined fetches_fail_once 0xAA start = WaitMined fetches_fail_once 0xAA ?v1"
    by (simp add: start_def)
  moreover have "mined_at fetches_fail_once 0xAA (receiptCalls ?v1)"
    by (simp add: mined_at_iff fetches_fail_once_def receipt100_def)
  from WaitMined_mined[OF this]
  have "WaitMined fetches_fail_once 0xAA ?v1 = Some (Return (Some receipt100, None), ?w1)"
    by (simp add: fetches_fail_once_def GetTransactionReceipt_def numeral_2_eq_2)
  ultimately have h1: "WaitMined fetches_fail_once 0xAA start =
                         Some (Return (Some receipt100, None), ?w1)"
    by simp
  have h2: "BlockNumber receipt100 = Some 100"
    by (simp add: receipt100_def)
  have h3: "catching_up fetches_fail_once 100 ?w1 0"
    by (rule catching_up_0)
  have h4: "eth_getBlockByNumber_finalized fetches_fail_once (headerCalls ?w1 + 0)
              = (None, Some (CallFailed ''connection refused''))"
    by (simp add: fetches_fail_once_def)
  have h5: "Some (CallFailed ''connection refused'') \<noteq> None \<or> (None :: Header option) = None"
    by simp
  have h6: "reached_at fetches_fail_once 100 1"
    by (simp add: reached_at_def header_number_def header_at_def fetches_fail_once_def)
  from WaitFinalized_fetch_failure_is_fatal
         [OF h1 h2 h3 h4 h5, of start None "CallFailed ''connection refused''"] g1
  have "WaitFinalized fetches_fail_once 0xAA start =
          Some (Return (None, Some (Errorf ''failed to get finalized block''
                                      (CallFailed ''connection refused''))),
                \<lparr>receiptCalls = 2, headerCalls = 1, selects = 1\<rparr>) \<and>
        WaitMined fetches_fail_once 0xAA start = WaitMined fetches_fail_once 0xAA ?v1"
    by (simp add: start_def)
  with g1 h1 h2 h3 h4 h6 show ?thesis
    by (simp add: start_def)
qed

text \<open>
  C6. \<^verbatim>\<open>WaitFinalized\<close>, handed by its call of \<^verbatim>\<open>WaitMined\<close> a receipt without block
  number and a nil error, returns the error \<^verbatim>\<open>empty tx block number\<close> and does not go
  on; \<^verbatim>\<open>WaitMined\<close> only returns receipts that have a block number, so that
  \<^verbatim>\<open>WaitFinalized\<close> never returns that error.
\<close>

theorem WaitFinalized_empty_block_number_branch:
  "(BlockNumber r = None \<longrightarrow>
      WaitFinalized_after p (Return (Some r, None), w1) =
        Some (Return (None, Some (ErrorsNew ''empty tx block number'')), w1)) \<and>
   (WaitMined p txHash w = Some (Return (Some r', None), w2) \<longrightarrow> BlockNumber r' \<noteq> None) \<and>
   WaitFinalized p txHash w \<noteq>
     Some (Return (res, Some (ErrorsNew ''empty tx block number'')), w3)"
proof (intro conjI impI)
  assume "BlockNumber r = None"
  then show "WaitFinalized_after p (Return (Some r, None), w1) =
               Some (Return (None, Some (ErrorsNew ''empty tx block number'')), w1)"
    by (simp add: WaitFinalized_after_def)
next
  assume "WaitMined p txHash w = Some (Return (Some r', None), w2)"
  from WaitMined_returns[OF this] show "BlockNumber r' \<noteq> None"
    by auto
next
  show "WaitFinalized p txHash w \<noteq>
          Some (Return (res, Some (ErrorsNew ''empty tx block number'')), w3)"
  proof
    assume bad: "WaitFinalized p txHash w =
                   Some (Return (res, Some (ErrorsNew ''empty tx block number'')), w3)"
    from WaitFinalized_Some[OF bad] obtain r b w1 where
      "BlockNumber r = Some b"
      "WaitFinalized_loop p r w1 =
         Some (Return (res, Some (ErrorsNew ''empty tx block number'')), w3)"
      by auto
    from loop_Some[OF this(2,1)] obtain n where
      "loop_exit p r b w1 n (Return (res, Some (ErrorsNew ''empty tx block number'')), w3)"
      by blast
    from loop_exit_error[OF this] show False by simp
  qed
qed

theorem WaitFinalized_empty_block_number_branch_witness:
  "BlockNumber pending_receipt = None \<and>
   WaitFinalized_after already_mined (Return (Some pending_receipt, None), start) =
     Some (Return (None, Some (ErrorsNew ''empty tx block number'')), start) \<and>
   WaitMined mined_at_third_poll 0xAA start =
     Some (Return (Some receipt100, None), \<lparr>receiptCalls = 3, headerCalls = 0, selects = 2\<rparr>) \<and>
   BlockNumber receipt100 \<noteq> None"
proof -
  have h1: "BlockNumber pending_receipt = None"
    by (simp add: pending_receipt_def)
  note h2 = mined_at_third_poll_WaitMined
  from WaitFinalized_empty_block_number_branch
         [of pending_receipt already_mined start] h1
  have c1: "WaitFinalized_after already_mined (Return (Some pending_receipt, None), start) =
              Some (Return (None, Some (ErrorsNew ''empty tx block number'')), start)"
    by blast
  from WaitFinalized_empty_block_number_branch
         [of _ mined_at_third_poll _ "0xAA" start receipt100
             "\<lparr>receiptCalls = 3, headerCalls = 0, selects = 2\<rparr>"] h2
  have c2: "BlockNumber receipt100 \<noteq> None"
    by blast
  from h1 h2 c1 c2 show ?thesis by simp
qed

text \<open>
  C7. \<^verbatim>\<open>WaitFinalized\<close> starts with a call of \<^verbatim>\<open>WaitMined\<close>. Whenever that call returns
  an error, \<^verbatim>\<open>WaitFinalized\<close> returns no receipt and that same error wrapped as
  \<^verbatim>\<open>failed to wait for tx is mined: ...\<close>, in the state \<^verbatim>\<open>WaitMined\<close> left: no
  finalized block has been fetched.
\<close>

theorem WaitFinalized_propagates_WaitMined_failure:
  assumes "WaitMined p txHash w = Some (Return (receipt, Some e), w1)"
  shows "WaitFinalized p txHash w =
           Some (Return (None, Some (Errorf ''failed to wait for tx is mined'' e)), w1) \<and>
         headerCalls w1 = headerCalls w"
  using WaitFinalized_not_mined[OF assms] WaitMined_returns[OF assms] by simp

theorem WaitFinalized_propagates_WaitMined_failure_witness:
  "WaitMined cancelled_while_waiting 0xAA start =
     Some (Return (None, Some (ContextErr Canceled)),
           \<lparr>receiptCalls = 1, headerCalls = 0, selects = 1\<rparr>) \<and>
   WaitFinalized cancelled_while_waiting 0xAA start =
     Some (Return (None, Some (Errorf ''failed to wait for tx is mined'' (ContextErr Canceled))),
           \<lparr>receiptCalls = 1, headerCalls = 0, selects = 1\<rparr>) \<and>
   headerCalls start = 0"
proof -
  have "\<not> mined_at cancelled_while_waiting 0xAA (receiptCalls start)"
    "select cancelled_while_waiting (selects start) = CtxDone Canceled"
    by (simp_all add: mined_at_iff cancelled_while_waiting_def)
  from WaitMined_done[OF this]
  have h: "WaitMined cancelled_while_waiting 0xAA start =
             Some (Return (None, Some (ContextErr Canceled)),
                   \<lparr>receiptCalls = 1, headerCalls = 0, selects = 1\<rparr>)"
    by (simp add: start_def)
  from WaitFinalized_propagates_WaitMined_failure[OF h] h show ?thesis
    by simp
qed

section \<open>Claim about the query wrappers\<close>

text \<open>
  C9. Each of \<^verbatim>\<open>GetTransactionReceipt\<close>, \<^verbatim>\<open>GetTransaction\<close>, \<^verbatim>\<open>GetBlockByNumber\<close>,
  \<^verbatim>\<open>GetBlockByHash\<close>, \<^verbatim>\<open>ZksGetL2ToL1LogProof\<close> and \<^verbatim>\<open>ZksGetBlockDetails\<close> answers a
  \<^verbatim>\<open>null\<close> response with a nil result and \<^verbatim>\<open>ethereum.NotFound\<close>, and returns a non-nil
  result exactly when it returns a nil error. The two block queries return (they do
  not panic) when the go-ethereum client keeps the same contract.
\<close>

theorem nullable_wrappers_result_iff_no_error:
  "GetTransactionReceipt (None, None) = (None, Some NotFound) \<and>
   result_xor_error (GetTransactionReceipt c1) \<and>
   GetTransaction (None, None) = (None, Some NotFound) \<and>
   result_xor_error (GetTransaction c2) \<and>
   ZksGetL2ToL1LogProof (None, None) = (None, Some NotFound) \<and>
   result_xor_error (ZksGetL2ToL1LogProof c3) \<and>
   ZksGetBlockDetails (None, None) = (None, Some NotFound) \<and>
   result_xor_error (ZksGetBlockDetails c4) \<and>
   GetBlockByNumber (None, None) BlockByNumber = Return (None, Some NotFound) \<and>
   (GetBlockByNumber c5 BlockByNumber = Return ret5 \<longrightarrow> result_xor_error ret5) \<and>
   ((\<forall>n. result_xor_error (BlockByNumber n)) \<longrightarrow> GetBlockByNumber c5 BlockByNumber \<noteq> Panic) \<and>
   GetBlockByHash (None, None) BlockByHash blockHash = Return (None, Some NotFound) \<and>
   (GetBlockByHash c6 BlockByHash blockHash = Return ret6 \<longrightarrow> result_xor_error ret6) \<and>
   (result_xor_error (BlockByHash blockHash) \<longrightarrow> GetBlockByHash c6 BlockByHash blockHash \<noteq> Panic)"
proof (intro conjI impI)
  show "result_xor_error (GetTransactionReceipt c1)"
    by (rule GetTransactionReceipt_contract)
  show "result_xor_error (GetTransaction c2)"
    by (simp add: GetTransaction_def result_xor_error_def split: prod.splits option.splits)
  show "result_xor_error (ZksGetL2ToL1LogProof c3)"
    by (simp add: ZksGetL2ToL1LogProof_def result_xor_error_def split: prod.splits option.splits)
  show "result_xor_error (ZksGetBlockDetails c4)"
    by (simp add: ZksGetBlockDetails_def result_xor_error_def split: prod.splits option.splits)
next
  assume "GetBlockByNumber c5 BlockByNumber = Return ret5"
  then show "result_xor_error ret5"
    by (auto simp: GetBlockByNumber_def result_xor_error_def split: prod.splits option.splits)
next
  assume "\<forall>n. result_xor_error (BlockByNumber n)"
  then show "GetBlockByNumber c5 BlockByNumber \<noteq> Panic"
    by (auto simp: GetBlockByNumber_def result_xor_error_def split: prod.splits option.splits)
next
  assume "GetBlockByHash c6 BlockByHash blockHash = Return ret6"
  then show "result_xor_error ret6"
    by (auto simp: GetBlockByHash_def result_xor_error_def split: prod.splits option.splits)
next
  assume "result_xor_error (BlockByHash blockHash)"
  then show "GetBlockByHash c6 BlockByHash blockHash \<noteq> Panic"
    by (auto simp: GetBlockByHash_def result_xor_error_def split: prod.splits option.splits)
qed (simp_all add: GetTransactionReceipt_def GetTransaction_def ZksGetL2ToL1LogProof_def
       ZksGetBlockDetails_def GetBlockByNumber_def GetBlockByHash_def)

text \<open>
  A block query whose two requests both succeed, for a client that answers every
  request with a block.
\<close>

theorem nullable_wrappers_result_iff_no_error_witness:
  "GetBlockByNumber
     (Some \<lparr>TmpNumber = 7, TmpL1BatchNumber = Some 1, TmpL1BatchTimestamp = None\<rparr>, None)
     (\<lambda>n. (Some n, None))
     = Return (Some \<lparr>Block = 7, L1BatchNumber = Some 1, L1BatchTimestamp = None\<rparr>, None) \<and>
   (\<forall>n::int. result_xor_error (Some n, None)) \<and>
   result_xor_error
     (Some \<lparr>Block = 7::int, L1BatchNumber = Some 1, L1BatchTimestamp = None\<rparr>, None) \<and>
   GetBlockByNumber
     (Some \<lparr>TmpNumber = 7, TmpL1BatchNumber = Some 1, TmpL1BatchTimestamp = None\<rparr>, None)
     (\<lambda>n. (Some n, None)) \<noteq> Panic \<and>
   GetBlockByHash
     (Some \<lparr>TmpHL1BatchNumber = Some 1, TmpHL1BatchTimestamp = None\<rparr>, None)
     (\<lambda>h. (Some h, None)) 0xAA
     = Return (Some \<lparr>Block = 0xAA, L1BatchNumber = Some 1, L1BatchTimestamp = None\<rparr>, None) \<and>
   result_xor_error (Some (0xAA::Hash), None) \<and>
   result_xor_error
     (Some \<lparr>Block = 0xAA::Hash, L1BatchNumber = Some 1, L1BatchTimestamp = None\<rparr>, None) \<and>
   GetBlockByHash
     (Some \<lparr>TmpHL1BatchNumber = Some 1, TmpHL1BatchTimestamp = None\<rparr>, None)
     (\<lambda>h. (Some h, None)) 0xAA \<noteq> Panic"
proof -
  let ?c5 = "(Some \<lparr>TmpNumber = 7, TmpL1BatchNumber = Some 1, TmpL1BatchTimestamp = None\<rparr>,
              None :: error option)"
  let ?f = "\<lambda>n::int. (Some n, None :: error option)"
  let ?r5 = "(Some \<lparr>Block = 7::int, L1BatchNumber = Some 1, L1BatchTimestamp = None\<rparr>,
              None :: error option)"
  let ?c6 = "(Some \<lparr>TmpHL1BatchNumber = Some 1, TmpHL1BatchTimestamp = None\<rparr>,
              None :: error option)"
  let ?g = "\<lambda>h::Hash. (Some h, None :: error option)"
  let ?r6 = "(Some \<lparr>Block = 0xAA::Hash, L1BatchNumber = Some 1, L1BatchTimestamp = None\<rparr>,
              None :: error option)"
  have a: "GetBlockByNumber ?c5 ?f = Return ?r5"
    by (simp add: GetBlockByNumber_def)
  have b: "\<forall>n. result_xor_error (?f n)"
    by (simp add: result_xor_error_def)
  have c: "GetBlockByHash ?c6 ?g 0xAA = Return ?r6"
    by (simp add: GetBlockByHash_def)
  have d: "result_xor_error (?g 0xAA)"
    by (simp add: result_xor_error_def)
  from nullable_wrappers_result_iff_no_error
         [of "(None, None)" "(None, None)" "(None, None)" "(None, None)" ?f ?c5 ?r5 ?g "0xAA"
             ?c6 ?r6]
  have "result_xor_error ?r5 \<and> GetBlockByNumber ?c5 ?f \<noteq> Panic \<and>
        result_xor_error ?r6 \<and> GetBlockByHash ?c6 ?g 0xAA \<noteq> Panic"
    using a b c d by blast
  with a b c d show ?thesis by simp
qed

end
